theory Spec2Isabelle
  imports Main "HOL-Library.Sublist"
begin

section \<open>CeRTSearcH: flags, validation and the query builder\<close>

text \<open>
  The program is one Go function, \<^verbatim>\<open>main\<close> of \<^verbatim>\<open>certsearch.go\<close>. Its local variables
  are split here into the flags (set once by the command line) and the variables of the
  main loop. Go strings are byte strings, modelled as \<^typ>\<open>string\<close>; \<^verbatim>\<open>int64\<close> values
  are modelled as \<^typ>\<open>int\<close> with the two's complement wrap-around written out at every
  arithmetic operation of the loop.
\<close>

subsection \<open>Flags (lines 28--43)\<close>

record flags =
  startID :: int
  endID :: int
  batchSize :: int
  unexpiredOnly :: bool
  deduplicate :: bool
  uniq :: bool
  sort_flag :: bool
  showSQLOnly :: bool
  q :: string
  subjectType :: string
  sanType :: string

text \<open>
  The flag \<^verbatim>\<open>logLevel\<close> only configures the logger (lines 45--52) and is left out.
\<close>

definition MaxInt64 :: int where
  "MaxInt64 = 9223372036854775807"

definition MinInt64 :: int where
  "MinInt64 = - 9223372036854775808"

text \<open>The values the flags have when the command line gives none of them.\<close>

definition default_flags :: flags where
  "default_flags = \<lparr>startID = - 1, endID = MaxInt64, batchSize = 100000,
     unexpiredOnly = False, deduplicate = False, uniq = False, sort_flag = False,
     showSQLOnly = False, q = ''%'', subjectType = ''NONE'', sanType = ''dNSName''\<rparr>"

subsection \<open>Case-insensitive selectors (lines 54--56)\<close>

text \<open>
  \<^verbatim>\<open>strings.ToUpper\<close>, as the Go library has it. A text of ASCII bytes only takes the byte
  path: the letters a to z are mapped to A to Z and every other byte is kept. A text with
  a byte of 128 or more is mapped rune by rune, by \<^verbatim>\<open>strings.Map(unicode.ToUpper, s)\<close>;
  the Unicode tables behind it belong to the library, not to this program, and that
  mapping is taken as the parameter \<open>tables\<close>. (It maps the long s, U+017F, to S and the
  dotless i, U+0131, to I, so that some selectors that are not ASCII are accepted.)
\<close>

definition upper_char :: "char \<Rightarrow> char" where
  "upper_char c =
     (if 97 \<le> (of_char c :: nat) \<and> (of_char c :: nat) \<le> 122
      then char_of ((of_char c :: nat) - 32) else c)"

definition is_ascii :: "string \<Rightarrow> bool" where
  "is_ascii s = list_all (\<lambda>c. (of_char c :: nat) < 128) s"

definition toUpper :: "(string \<Rightarrow> string) \<Rightarrow> string \<Rightarrow> string" where
  "toUpper tables s = (if is_ascii s then map upper_char s else tables s)"

definition upper_selectors :: "(string \<Rightarrow> string) \<Rightarrow> flags \<Rightarrow> flags" where
  "upper_selectors tables f =
     f\<lparr>subjectType := toUpper tables (subjectType f), sanType := toUpper tables (sanType f)\<rparr>"

subsection \<open>Validation of the user input (lines 58--91)\<close>

text \<open>Every \<^verbatim>\<open>logrus.Fatal\<close> ends the process; the first failing check wins.\<close>

datatype fatal =
    Invalid_q
  | StartID_gt_endID
  | BatchSize_too_big
  | Both_NONE
  | Invalid_subjectType
  | Invalid_sanType

text \<open>The chain of \<^verbatim>\<open>if ... else if\<close> of lines 59--67.\<close>

definition check_ranges :: "flags \<Rightarrow> fatal option" where
  "check_ranges f =
     (if q f = [] then Some Invalid_q
      else if startID f > endID f then Some StartID_gt_endID
      else if batchSize f > 100000 then Some BatchSize_too_big
      else if subjectType f = ''NONE'' \<and> sanType f = ''NONE'' then Some Both_NONE
      else None)"

text \<open>
  The regular expression \<^verbatim>\<open>^[0-9.]*[0-9]$\<close> of line 72: only digits and dots, the last
  byte a digit (so the text is not empty). Go's \<^verbatim>\<open>$\<close> matches at the end of the text only.
\<close>

definition is_digit :: "char \<Rightarrow> bool" where
  "is_digit c = (48 \<le> (of_char c :: nat) \<and> (of_char c :: nat) \<le> 57)"

definition match_oid :: "string \<Rightarrow> bool" where
  "match_oid s =
     (s \<noteq> [] \<and> list_all (\<lambda>c. is_digit c \<or> c = CHR ''.'') s \<and> is_digit (last s))"

text \<open>
  The \<^verbatim>\<open>switch subjectType\<close> of lines 69--77. The pattern is a constant that compiles, so
  the error branch of line 73 is never taken.
\<close>

definition check_subjectType :: "string \<Rightarrow> fatal option" where
  "check_subjectType s =
     (if s = ''NONE'' \<or> s = ''ANY'' then None
      else if \<not> match_oid s then Some Invalid_subjectType
      else None)"

text \<open>The \<^verbatim>\<open>switch sanType\<close> of lines 79--91, which also computes \<^verbatim>\<open>sanTypeNum\<close>.\<close>

definition sanTypeNum_of :: "string \<Rightarrow> fatal + int" where
  "sanTypeNum_of s =
     (if s = ''NONE'' \<or> s = ''ANY'' then Inr (- 1)
      else if s = ''RFC822NAME'' then Inr 1
      else if s = ''DNSNAME'' then Inr 2
      else if s = ''IPADDRESS'' then Inr 7
      else Inl Invalid_sanType)"

text \<open>Lines 58--91 as a whole: the fatal error, or \<^verbatim>\<open>sanTypeNum\<close>.\<close>

definition validate :: "flags \<Rightarrow> fatal + int" where
  "validate f =
     (case check_ranges f of
        Some e \<Rightarrow> Inl e
      | None \<Rightarrow>
          (case check_subjectType (subjectType f) of
             Some e \<Rightarrow> Inl e
           | None \<Rightarrow> sanTypeNum_of (sanType f)))"

subsection \<open>The query builder (lines 93--149)\<close>

text \<open>\<^verbatim>\<open>fmt.Sprintf("%d", n)\<close>: the decimal digits of an integer.\<close>

definition digit_char :: "nat \<Rightarrow> char" where
  "digit_char d = char_of (48 + d)"

function digits :: "nat \<Rightarrow> string" where
  "digits n = (if n < 10 then [digit_char n] else digits (n div 10) @ [digit_char (n mod 10)])"
  by pat_completeness auto
termination
  by (relation "measure (\<lambda>n. n)") auto

definition sprintf_d :: "int \<Rightarrow> string" where
  "sprintf_d n = (if n < 0 then CHR ''-'' # digits (nat (- n)) else digits (nat n))"

text \<open>
  The raw string literals of the source, byte for byte. Each starts with the line break
  that follows the opening back quote; \<open>tabs n\<close> is the indentation of the line.
\<close>

definition tabs :: "nat \<Rightarrow> string" where
  "tabs n = replicate n (CHR 0x09)"

definition sql_head :: string where
  \<open>sql_head =
     ''SELECT c.ID, name.IDENTITY, x509_notAfter(c.CERTIFICATE)\<newline>'' @ tabs 1 @
     ''FROM certificate c\<newline>'' @ tabs 3 @
     ''LEFT JOIN LATERAL (''\<close>

definition sql_subject :: string where
  \<open>sql_subject =
     ''\<newline>'' @ tabs 4 @
     ''SELECT encode(x509_nameattributes_raw.RAW_VALUE, \'escape\'::text) AS IDENTITY\<newline>'' @
     tabs 5 @ ''FROM x509_nameattributes_raw(c.CERTIFICATE)''\<close>

definition sql_subject_where :: string where
  \<open>sql_subject_where =
     ''\<newline>'' @ tabs 5 @ ''WHERE x509_nameattributes_raw.ATTRIBUTE_OID = '' @ [CHR 0x27]\<close>

definition sql_union :: string where
  \<open>sql_union = ''\<newline>'' @ tabs 4 @ ''UNION''\<close>

definition sql_san :: string where
  \<open>sql_san =
     ''\<newline>'' @ tabs 4 @
     ''SELECT encode(x509_altnames_raw.RAW_VALUE, \'escape\'::text) AS IDENTITY\<newline>'' @
     tabs 5 @ ''FROM x509_altnames_raw(c.CERTIFICATE)''\<close>

definition sql_san_where :: string where
  \<open>sql_san_where = ''\<newline>'' @ tabs 5 @ ''WHERE x509_altnames_raw.TYPE_NUM = ''\<close>

definition sql_between :: string where
  \<open>sql_between =
     ''\<newline>'' @ tabs 2 @ ''   ) name ON TRUE\<newline>'' @ tabs 1 @
     ''WHERE c.ID BETWEEN $1 AND $2''\<close>

definition sql_ilike :: string where
  \<open>sql_ilike = ''\<newline>'' @ tabs 2 @ ''AND name.IDENTITY ILIKE $3''\<close>

definition sql_unexpired :: string where
  \<open>sql_unexpired =
     ''\<newline>'' @ tabs 2 @ ''AND x509_notAfter(c.CERTIFICATE) > now() AT TIME ZONE \'UTC'' @
     [CHR 0x27]\<close>

definition sql_dedup :: string where
  \<open>sql_dedup =
     ''\<newline>'' @ tabs 2 @ ''AND NOT EXISTS (\<newline>'' @ tabs 3 @
     ''SELECT 1\<newline>'' @ tabs 4 @
     ''FROM certificate c2\<newline>'' @ tabs 4 @
     ''WHERE x509_serialNumber(c2.CERTIFICATE) = x509_serialNumber(c.CERTIFICATE)\<newline>'' @
     tabs 5 @ ''AND c2.ISSUER_CA_ID = c.ISSUER_CA_ID\<newline>'' @ tabs 5 @
     ''AND c2.ID < c.ID\<newline>'' @ tabs 5 @
     ''AND x509_tbscert_strip_ct_ext(c2.CERTIFICATE) = x509_tbscert_strip_ct_ext(c.CERTIFICATE)\<newline>'' @
     tabs 4 @ ''LIMIT 1\<newline>'' @ tabs 2 @ '')''\<close>

definition sql_group :: string where
  \<open>sql_group =
     ''\<newline>'' @ tabs 2 @ ''GROUP BY c.ID, name.IDENTITY, x509_notAfter(c.CERTIFICATE)''\<close>

definition sql_order :: string where
  \<open>sql_order =
     ''\<newline>'' @ tabs 2 @ ''ORDER BY c.ID, name.IDENTITY, x509_notAfter(c.CERTIFICATE)''\<close>

text \<open>The lateral expansion, lines 97--118.\<close>

definition lateral :: "flags \<Rightarrow> int \<Rightarrow> string" where
  "lateral f sanTypeNum =
     (if subjectType f \<noteq> ''NONE''
      then sql_subject @
        (if subjectType f \<noteq> ''ANY''
         then sql_subject_where @ subjectType f @ [CHR 0x27] else [])
      else []) @
     (if sanType f \<noteq> ''NONE''
      then (if subjectType f \<noteq> ''NONE'' then sql_union else []) @
        sql_san @
        (if sanType f \<noteq> ''ANY'' then sql_san_where @ sprintf_d sanTypeNum else [])
      else [])"

text \<open>The range and pattern predicates and the optional clauses, lines 119--149.\<close>

definition clauses :: "flags \<Rightarrow> string" where
  "clauses f =
     sql_between @
     (if q f \<noteq> [] then sql_ilike else []) @
     (if unexpiredOnly f then sql_unexpired else []) @
     (if deduplicate f then sql_dedup else []) @
     (if uniq f then sql_group else []) @
     (if sort_flag f then sql_order else [])"

definition build_query :: "flags \<Rightarrow> int \<Rightarrow> string" where
  "build_query f sanTypeNum = sql_head @ lateral f sanTypeNum @ clauses f"

subsection \<open>From the command line to the main loop (lines 54--155)\<close>

datatype startup =
    Fatal fatal
  | Show_SQL string
  | Start_scan string

text \<open>
  The selectors are upper-cased, the input is validated, the query is built; with
  \<^verbatim>\<open>-showSQLOnly\<close> the program prints the query and a semicolon and returns.
\<close>

definition startup :: "(string \<Rightarrow> string) \<Rightarrow> flags \<Rightarrow> startup" where
  "startup tables f0 =
     (let f = upper_selectors tables f0 in
      case validate f of
        Inl e \<Rightarrow> Fatal e
      | Inr sanTypeNum \<Rightarrow>
          (let query = build_query f sanTypeNum in
           if showSQLOnly f then Show_SQL (query @ '';\<newline>'') else Start_scan query))"

section \<open>The main loop (lines 170--240)\<close>

subsection \<open>Values, variables and the backend\<close>

text \<open>The result of an \<^verbatim>\<open>int64\<close> operation whose exact value is \<open>x\<close>.\<close>

definition wrap64 :: "int \<Rightarrow> int" where
  "wrap64 x = (x + 9223372036854775808) mod 18446744073709551616 - 9223372036854775808"

text \<open>\<^verbatim>\<open>time.Second\<close>, in nanoseconds, the unit of \<^verbatim>\<open>time.Duration\<close>.\<close>

definition Second :: int where
  "Second = 1000000000"

text \<open>A row of the result: \<^verbatim>\<open>certificateID\<close>, \<^verbatim>\<open>dNSName\<close>, \<^verbatim>\<open>notAfter\<close>.\<close>

type_synonym row = "int \<times> string \<times> int"

text \<open>
  The variables the loop changes. \<open>startID_var\<close> is the variable \<^verbatim>\<open>startID\<close>, which
  line 199 assigns.
\<close>

record vars =
  i :: int
  startID_var :: int
  maxCertificateID :: int
  thisBatchSize :: int
  sleepFor :: int

definition init_vars :: "flags \<Rightarrow> vars" where
  "init_vars f = \<lparr>i = startID f, startID_var = startID f, maxCertificateID = - 1,
     thisBatchSize = 0, sleepFor = 0\<rparr>"

text \<open>
  What the outside world answers during one iteration: whether the context is cancelled
  before the timer fires; the answer to \<^verbatim>\<open>SELECT max(ID)\<close> (\<open>None\<close> when the query or its
  scan fails); the answer to the batch query (\<open>None\<close> when the query fails, else the rows,
  a row being \<open>None\<close> when \<^verbatim>\<open>rows.Scan\<close> fails on it). An answer is read only if the
  iteration asks for it.
\<close>

record backend =
  interrupted :: bool
  latest :: "int option"
  batch :: "row option list option"

text \<open>What the loop does that can be observed: its log records, its waits, its queries.\<close>

datatype event =
    Log_sleeping int
  | Waited int
  | Log_interrupted int
  | Query_latest
  | Log_latest_error
  | Log_latest int
  | Log_no_more
  | Log_batch_start int int
  | Query_batch string int int string
  | Log_batch_error
  | Log_scan_error
  | Log_record row
  | Log_batch_end int int int

datatype status = Completed | Stopped | Failed | Running

text \<open>
  How the loop body ends: \<open>Post\<close> when control reaches the end of the block, by falling
  through or by \<^verbatim>\<open>continue\<close> (in both cases Go then runs the post statement
  \<^verbatim>\<open>i += thisBatchSize\<close>), \<open>Break\<close> on \<^verbatim>\<open>break for_loop\<close>.
\<close>

datatype control = Post | Break status

subsection \<open>The steps of one iteration\<close>

text \<open>
  Lines 189--205. The flag of the result is \<open>False\<close> when the iteration ends with
  \<^verbatim>\<open>continue\<close>; a query or scan that fails leaves \<^verbatim>\<open>maxCertificateID\<close> as it was.
\<close>

definition discover :: "flags \<Rightarrow> backend \<Rightarrow> vars \<Rightarrow> event list \<times> vars \<times> bool" where
  "discover f e s =
     (if maxCertificateID s \<le> i s then
        (case latest e of
           None \<Rightarrow> ([Query_latest, Log_latest_error], s, False)
         | Some m \<Rightarrow>
             (let s1 = s\<lparr>maxCertificateID := m\<rparr>;
                  s2 = (if i s1 = - 1
                        then s1\<lparr>startID_var := wrap64 (m + 1), i := wrap64 (m + 1)\<rparr>
                        else s1);
                  s3 = (if maxCertificateID s2 > endID f
                        then s2\<lparr>maxCertificateID := endID f\<rparr>
                        else s2)
              in ([Query_latest, Log_latest m], s3, True)))
      else ([], s, True))"

text \<open>
  Lines 207--213. The flag of the result is \<open>False\<close> when the iteration ends with
  \<^verbatim>\<open>continue\<close> (no more certificates available yet).
\<close>

definition range_sizing :: "flags \<Rightarrow> vars \<Rightarrow> vars \<times> bool" where
  "range_sizing f s =
     (let s1 = s\<lparr>thisBatchSize := wrap64 (wrap64 (maxCertificateID s - i s) + 1)\<rparr> in
      if thisBatchSize s1 \<ge> batchSize f
      then (s1\<lparr>thisBatchSize := batchSize f, sleepFor := 0\<rparr>, True)
      else if thisBatchSize s1 \<le> 0 then (s1, False)
      else (s1, True))"

text \<open>
  Lines 230--237: one log record for each row, until a row cannot be scanned. The flag is
  \<open>True\<close> when that happened.
\<close>

fun process_rows :: "row option list \<Rightarrow> event list \<times> bool" where
  "process_rows [] = ([], False)"
| "process_rows (None # rs) = ([Log_scan_error], True)"
| "process_rows (Some r # rs) =
     (let (evs, failed) = process_rows rs in (Log_record r # evs, failed))"

text \<open>Lines 215--239. The counter \<^verbatim>\<open>n\<close> is declared at line 226 and never assigned.\<close>

definition fetch :: "flags \<Rightarrow> string \<Rightarrow> backend \<Rightarrow> vars \<Rightarrow> event list \<times> vars \<times> control" where
  "fetch f query e s =
     (let first = i s;
          last = wrap64 (wrap64 (i s + thisBatchSize s) - 1);
          start = [Log_batch_start first last, Query_batch query first last (q f)]
      in case batch e of
           None \<Rightarrow> (start @ [Log_batch_error], s, Post)
         | Some rs \<Rightarrow>
             (let n = 0;
                  (recs, failed) = process_rows rs
              in if failed then (start @ recs, s, Break Failed)
                 else (start @ recs @ [Log_batch_end first last n], s, Post)))"

text \<open>Lines 207--239: the range is sized, and fetched unless nothing is available.\<close>

definition batch_step :: "flags \<Rightarrow> string \<Rightarrow> backend \<Rightarrow> vars \<Rightarrow> event list \<times> vars \<times> control" where
  "batch_step f query e s =
     (let (s1, go) = range_sizing f s in
      if \<not> go then ([Log_no_more], s1, Post) else fetch f query e s1)"

text \<open>The loop body, lines 176--239.\<close>

definition body :: "flags \<Rightarrow> string \<Rightarrow> backend \<Rightarrow> vars \<Rightarrow> event list \<times> vars \<times> control" where
  "body f query e s =
     (let ev0 = (if sleepFor s > 0 then [Log_sleeping (sleepFor s)] else []) in
      if interrupted e then (ev0 @ [Log_interrupted (wrap64 (i s - 1))], s, Break Stopped)
      else
        (let ev1 = ev0 @ [Waited (sleepFor s)];
             s1 = s\<lparr>sleepFor := Second * 15\<rparr>;
             (ev2, s2, found) = discover f e s1
         in if \<not> found then (ev1 @ ev2, s2, Post)
            else
              (let (ev3, s3, c) = batch_step f query e s2 in (ev1 @ ev2 @ ev3, s3, c))))"

subsection \<open>The loop\<close>

text \<open>The post statement \<^verbatim>\<open>i += thisBatchSize\<close> of line 175.\<close>

definition post :: "vars \<Rightarrow> vars" where
  "post s = s\<lparr>i := wrap64 (i s + thisBatchSize s)\<rparr>"

text \<open>
  The loop of line 175, run against a list of answers of the outside world, one for each
  iteration. The condition \<^verbatim>\<open>i < endID\<close> is tested before every iteration, the first
  included. When the answers run out while the condition still holds the status is
  \<open>Running\<close>: the program would go on.
\<close>

fun run :: "flags \<Rightarrow> string \<Rightarrow> backend list \<Rightarrow> vars \<Rightarrow> event list \<times> vars \<times> status" where
  "run f query [] s = ([], s, if i s < endID f then Running else Completed)"
| "run f query (e # es) s =
     (if \<not> (i s < endID f) then ([], s, Completed)
      else
        (case body f query e s of
           (evs, s', Break st) \<Rightarrow> (evs, s', st)
         | (evs, s', Post) \<Rightarrow>
             (let (evs', s'', st) = run f query es (post s') in (evs @ evs', s'', st))))"

text \<open>
  The program from the command line on; \<open>None\<close> when it ends before the loop. The
  connection to the backend (lines 157--168) is taken to succeed.
\<close>

definition scan ::
  "(string \<Rightarrow> string) \<Rightarrow> flags \<Rightarrow> backend list \<Rightarrow> (event list \<times> vars \<times> status) option" where
  "scan tables f0 es =
     (case startup tables f0 of
        Start_scan query \<Rightarrow>
          Some (run (upper_selectors tables f0) query es (init_vars f0))
      | _ \<Rightarrow> None)"

subsection \<open>Notions used in the statements\<close>

text \<open>The number of positions of a text at which a (non-empty) word starts.\<close>

fun occurrences :: "string \<Rightarrow> string \<Rightarrow> nat" where
  "occurrences w [] = 0"
| "occurrences w (c # cs) = (if prefix w (c # cs) then 1 else 0) + occurrences w cs"

text \<open>The ranges of the batch queries of a trace, in the order they were issued.\<close>

fun batch_ranges :: "event list \<Rightarrow> (int \<times> int) list" where
  "batch_ranges [] = []"
| "batch_ranges (Query_batch query lo hi pat # evs) = (lo, hi) # batch_ranges evs"
| "batch_ranges (ev # evs) = batch_ranges evs"

text \<open>The values of type \<^verbatim>\<open>int64\<close>.\<close>

definition int64 :: "int \<Rightarrow> bool" where
  "int64 x = (MinInt64 \<le> x \<and> x \<le> MaxInt64)"

text \<open>A text that is empty or starts with a line break, as every clause of the query does.\<close>

definition nl_start :: "string \<Rightarrow> bool" where
  "nl_start b = (b = [] \<or> hd b = CHR ''\<newline>'')"

text \<open>
  What holds of every event of a run with statement \<open>query\<close> and pattern \<open>pat\<close>: a batch
  query carries that statement and that pattern, a batch-end record carries the count 0.
\<close>

fun event_ok :: "string \<Rightarrow> string \<Rightarrow> event \<Rightarrow> bool" where
  "event_ok query pat (Log_batch_end lo hi n) = (n = 0)"
| "event_ok query pat (Query_batch query' lo hi pat') = (query' = query \<and> pat' = pat)"
| "event_ok query pat ev = True"

text \<open>An iteration that is not interrupted, with the given answers of the backend.\<close>

definition answer :: "int option \<Rightarrow> row option list option \<Rightarrow> backend" where
  "answer m rs = \<lparr>interrupted = False, latest = m, batch = rs\<rparr>"

text \<open>
  Answers of a backend whose latest ID is 500 and then 510, and whose query for the latest
  ID fails in the third, the fourth and the sixth iteration.
\<close>

definition live_edge_answers :: "backend list" where
  "live_edge_answers =
     [answer (Some 500) (Some []), answer (Some 510) (Some []), answer None (Some []),
      answer None (Some []), answer (Some 510) (Some []), answer None (Some []),
      answer (Some 510) (Some [])]"

text \<open>
  A part of the mapping of the Unicode tables, enough for the selectors used below: on
  UTF-8 bytes, the long s (bytes C5 BF) becomes S, the dotless i (bytes C4 B1) becomes I,
  the letters a to z become A to Z, and every other byte is kept.
\<close>

fun upper_sample :: "string \<Rightarrow> string" where
  "upper_sample [] = []"
| "upper_sample [a] = [upper_char a]"
| "upper_sample (a # b # cs) =
     (if a = CHR 0xC5 \<and> b = CHR 0xBF then CHR ''S'' # upper_sample cs
      else if a = CHR 0xC4 \<and> b = CHR 0xB1 then CHR ''I'' # upper_sample cs
      else upper_char a # upper_sample (b # cs))"

section \<open>Validation and the selectors\<close>

subsection \<open>Upper-casing is idempotent on ASCII text\<close>

lemma upper_char_idem: "upper_char (upper_char c) = upper_char c"
proof (cases "97 \<le> (of_char c :: nat) \<and> (of_char c :: nat) \<le> 122")
  case True
  then have "(of_char c :: nat) - 32 < 256" by arith
  then have "(of_char (char_of ((of_char c :: nat) - 32)) :: nat) = of_char c - 32"
    by (simp only: of_char_of mod_less)
  with True show ?thesis by (auto simp add: upper_char_def)
next
  case False
  then show ?thesis by (auto simp add: upper_char_def)
qed

lemma upper_char_ascii: "(of_char c :: nat) < 128 \<Longrightarrow> (of_char (upper_char c) :: nat) < 128"
proof (cases "97 \<le> (of_char c :: nat) \<and> (of_char c :: nat) \<le> 122")
  case True
  then have "(of_char c :: nat) - 32 < 256" by arith
  then have "(of_char (char_of ((of_char c :: nat) - 32)) :: nat) = of_char c - 32"
    by (simp only: of_char_of mod_less)
  with True show ?thesis by (auto simp add: upper_char_def)
next
  case False
  assume "(of_char c :: nat) < 128"
  with False show ?thesis by (auto simp add: upper_char_def)
qed

lemma is_ascii_upper: "is_ascii s \<Longrightarrow> is_ascii (map upper_char s)"
  by (induction s) (simp_all add: is_ascii_def upper_char_ascii)

lemma toUpper_ascii: "is_ascii s \<Longrightarrow> toUpper tables s = map upper_char s"
  by (simp add: toUpper_def)

lemma toUpper_idem_ascii:
  assumes "is_ascii s"
  shows "toUpper tables (toUpper tables s) = toUpper tables s"
proof -
  from assms have "is_ascii (map upper_char s)"
    by (rule is_ascii_upper)
  then have "toUpper tables (map upper_char s) = map upper_char (map upper_char s)"
    by (rule toUpper_ascii)
  with assms show ?thesis
    by (simp add: toUpper_ascii upper_char_idem)
qed

text \<open>
  For a text that is not ASCII the same holds as soon as upper-casing the result of the
  library's mapping changes nothing.
\<close>

lemma toUpper_idem:
  assumes "\<not> is_ascii s \<Longrightarrow> toUpper tables (tables s) = tables s"
  shows "toUpper tables (toUpper tables s) = toUpper tables s"
proof (cases "is_ascii s")
  case True
  then show ?thesis by (rule toUpper_idem_ascii)
next
  case False
  with assms show ?thesis by (simp add: toUpper_def)
qed

lemma is_ascii_words:
  "is_ascii ''dNSName''" "is_ascii ''dnsname''" "is_ascii ''DNSNAME''" "is_ascii ''NONE''"
  by code_simp+

lemma upper_words:
  "map upper_char ''dNSName'' = ''DNSNAME''" "map upper_char ''dnsname'' = ''DNSNAME''"
  "map upper_char ''DNSNAME'' = ''DNSNAME''" "map upper_char ''NONE'' = ''NONE''"
  by code_simp+

lemma toUpper_dNSName: "toUpper tables ''dNSName'' = ''DNSNAME''"
  by (simp only: toUpper_ascii is_ascii_words upper_words)

lemma toUpper_dnsname: "toUpper tables ''dnsname'' = ''DNSNAME''"
  by (simp only: toUpper_ascii is_ascii_words upper_words)

lemma toUpper_DNSNAME: "toUpper tables ''DNSNAME'' = ''DNSNAME''"
  by (simp only: toUpper_ascii is_ascii_words upper_words)

lemma toUpper_NONE: "toUpper tables ''NONE'' = ''NONE''"
  by (simp only: toUpper_ascii is_ascii_words upper_words)

text \<open>The selector \<^verbatim>\<open>dn\<close>, long s, \<^verbatim>\<open>name\<close>: not ASCII, and upper-cased to \<^verbatim>\<open>DNSNAME\<close>.\<close>

lemma long_s_selector:
  "\<not> is_ascii (''dn'' @ [CHR 0xC5, CHR 0xBF] @ ''name'')"
  "upper_sample (''dn'' @ [CHR 0xC5, CHR 0xBF] @ ''name'') = ''DNSNAME''"
  by code_simp+

lemma upper_selectors_subject:
  assumes "\<not> is_ascii s \<Longrightarrow> toUpper tables (tables s) = tables s"
  shows "upper_selectors tables (f\<lparr>subjectType := toUpper tables s\<rparr>) =
    upper_selectors tables (f\<lparr>subjectType := s\<rparr>)"
  using toUpper_idem [OF assms] by (simp add: upper_selectors_def)

lemma upper_selectors_san:
  assumes "\<not> is_ascii s \<Longrightarrow> toUpper tables (tables s) = tables s"
  shows "upper_selectors tables (f\<lparr>sanType := toUpper tables s\<rparr>) =
    upper_selectors tables (f\<lparr>sanType := s\<rparr>)"
  using toUpper_idem [OF assms] by (simp add: upper_selectors_def)

subsection \<open>The regular expression and the number format, on examples\<close>

lemma match_oid_examples:
  "match_oid ''1.2.3''" "match_oid ''2.5.4.3''" "match_oid ''..5''" "match_oid ''7''"
  "\<not> match_oid []" "\<not> match_oid ''1.2.''" "\<not> match_oid ''1.2.3\<newline>''"
  "\<not> match_oid ''2.5.4.A''" "\<not> match_oid ''NONE''"
  by (simp_all add: match_oid_def is_digit_def)

lemma sprintf_d_examples:
  "sprintf_d 1 = ''1''" "sprintf_d 2 = ''2''" "sprintf_d 7 = ''7''"
  "sprintf_d (- 1) = ''-1''" "sprintf_d 120 = ''120''"
  by code_simp+

subsection \<open>Upper and lower case\<close>

text \<open>
  C10. The selectors are upper-cased before they are validated and before the query is
  built, so the program does not tell a selector from its upper-case form: for every flag
  record and every text \<open>s\<close>, giving \<open>s\<close> or its upper-case form as \<^verbatim>\<open>subjectType\<close>, or as
  \<^verbatim>\<open>sanType\<close>, leads to the same outcome of the start-up (the same fatal error, or the same
  statement). For an ASCII text \<open>s\<close> this holds whatever the Unicode tables of the library
  are; for a text that is not ASCII it holds provided that upper-casing what the library's
  mapping makes of \<open>s\<close> changes nothing, which is a property of the library.
\<close>

theorem selectors_case_insensitive:
  assumes "\<not> is_ascii s \<Longrightarrow> toUpper tables (tables s) = tables s"
  shows "startup tables (f\<lparr>subjectType := toUpper tables s\<rparr>) =
      startup tables (f\<lparr>subjectType := s\<rparr>) \<and>
    startup tables (f\<lparr>sanType := toUpper tables s\<rparr>) =
      startup tables (f\<lparr>sanType := s\<rparr>)"
  by (simp add: startup_def upper_selectors_subject [OF assms] upper_selectors_san [OF assms])

text \<open>
  The spellings \<^verbatim>\<open>dNSName\<close>, \<^verbatim>\<open>dnsname\<close> and \<^verbatim>\<open>DNSNAME\<close> are all accepted and give the
  same statement, and so does the spelling with a long s in place of the s.
\<close>

theorem selectors_case_insensitive_witness:
  "startup upper_sample (default_flags\<lparr>sanType := ''dNSName''\<rparr>) =
     startup upper_sample (default_flags\<lparr>sanType := ''DNSNAME''\<rparr>) \<and>
   startup upper_sample (default_flags\<lparr>sanType := ''dnsname''\<rparr>) =
     startup upper_sample (default_flags\<lparr>sanType := ''DNSNAME''\<rparr>) \<and>
   \<not> is_ascii (''dn'' @ [CHR 0xC5, CHR 0xBF] @ ''name'') \<and>
   toUpper upper_sample (upper_sample (''dn'' @ [CHR 0xC5, CHR 0xBF] @ ''name'')) =
     upper_sample (''dn'' @ [CHR 0xC5, CHR 0xBF] @ ''name'') \<and>
   startup upper_sample (default_flags\<lparr>sanType := ''dn'' @ [CHR 0xC5, CHR 0xBF] @ ''name''\<rparr>) =
     startup upper_sample (default_flags\<lparr>sanType := ''DNSNAME''\<rparr>) \<and>
   (\<exists>query. startup upper_sample (default_flags\<lparr>sanType := ''DNSNAME''\<rparr>) = Start_scan query)"
proof -
  let ?long = "''dn'' @ [CHR 0xC5, CHR 0xBF] @ ''name''"
  have a: "startup upper_sample (default_flags\<lparr>sanType := ''DNSNAME''\<rparr>) =
      startup upper_sample (default_flags\<lparr>sanType := ''dNSName''\<rparr>)"
    using selectors_case_insensitive
      [where tables = upper_sample and f = default_flags and s = "''dNSName''"]
    by (simp only: toUpper_dNSName is_ascii_words simp_thms)
  have b: "startup upper_sample (default_flags\<lparr>sanType := ''DNSNAME''\<rparr>) =
      startup upper_sample (default_flags\<lparr>sanType := ''dnsname''\<rparr>)"
    using selectors_case_insensitive
      [where tables = upper_sample and f = default_flags and s = "''dnsname''"]
    by (simp only: toUpper_dnsname is_ascii_words simp_thms)
  have up: "toUpper upper_sample ?long = ''DNSNAME''"
    by (simp only: toUpper_def long_s_selector if_False)
  have idem: "toUpper upper_sample (upper_sample ?long) = upper_sample ?long"
    by (simp only: long_s_selector toUpper_DNSNAME)
  have c: "startup upper_sample (default_flags\<lparr>sanType := ''DNSNAME''\<rparr>) =
      startup upper_sample (default_flags\<lparr>sanType := ?long\<rparr>)"
    using selectors_case_insensitive
      [where tables = upper_sample and f = default_flags and s = ?long, OF idem]
    by (simp only: up)
  have d: "\<exists>query. startup upper_sample (default_flags\<lparr>sanType := ''DNSNAME''\<rparr>) =
      Start_scan query"
    by (simp add: startup_def upper_selectors_def toUpper_DNSNAME toUpper_NONE
        default_flags_def validate_def check_ranges_def check_subjectType_def
        sanTypeNum_of_def MaxInt64_def Let_def)
  from a b c d idem long_s_selector(1) show ?thesis by simp
qed

subsection \<open>What is rejected\<close>

lemma startup_Fatal_iff:
  "(\<exists>e. startup tables f0 = Fatal e) \<longleftrightarrow>
     (\<exists>e. validate (upper_selectors tables f0) = Inl e)"
  by (auto simp add: startup_def Let_def split: sum.splits)

text \<open>
  C7. Lines 58--91 reject the inputs listed here and no others. Here \<^verbatim>\<open>subjectType\<close>
  and \<^verbatim>\<open>sanType\<close> are the variables these lines read, which hold the selectors in upper
  case since lines 55--56. A flag record \<open>f\<close> is rejected if and only if its pattern is
  empty, or \<^verbatim>\<open>startID > endID\<close>, or \<^verbatim>\<open>batchSize > 100000\<close>, or both selectors are
  \<^verbatim>\<open>NONE\<close>, or \<^verbatim>\<open>subjectType\<close> is neither \<^verbatim>\<open>NONE\<close> nor \<^verbatim>\<open>ANY\<close> and does not match
  \<^verbatim>\<open>^[0-9.]*[0-9]$\<close>, or \<^verbatim>\<open>sanType\<close> is none of \<^verbatim>\<open>NONE\<close>, \<^verbatim>\<open>ANY\<close>, \<^verbatim>\<open>RFC822NAME\<close>,
  \<^verbatim>\<open>DNSNAME\<close>, \<^verbatim>\<open>IPADDRESS\<close>; and the program ends with a fatal error, before the loop, if
  and only if these lines reject the flags with the selectors upper-cased.
\<close>

theorem validate_rejects_iff:
  "((\<exists>e. validate f = Inl e) \<longleftrightarrow>
      (q f = [] \<or> startID f > endID f \<or> batchSize f > 100000
       \<or> (subjectType f = ''NONE'' \<and> sanType f = ''NONE'')
       \<or> (subjectType f \<noteq> ''NONE'' \<and> subjectType f \<noteq> ''ANY'' \<and> \<not> match_oid (subjectType f))
       \<or> sanType f \<notin> {''NONE'', ''ANY'', ''RFC822NAME'', ''DNSNAME'', ''IPADDRESS''})) \<and>
   ((\<exists>e. startup tables f = Fatal e) \<longleftrightarrow>
      (\<exists>e. validate (upper_selectors tables f) = Inl e))"
proof
  show "(\<exists>e. validate f = Inl e) \<longleftrightarrow>
      (q f = [] \<or> startID f > endID f \<or> batchSize f > 100000
       \<or> (subjectType f = ''NONE'' \<and> sanType f = ''NONE'')
       \<or> (subjectType f \<noteq> ''NONE'' \<and> subjectType f \<noteq> ''ANY'' \<and> \<not> match_oid (subjectType f))
       \<or> sanType f \<notin> {''NONE'', ''ANY'', ''RFC822NAME'', ''DNSNAME'', ''IPADDRESS''})"
    by (auto simp add: validate_def check_ranges_def check_subjectType_def sanTypeNum_of_def
        split: option.splits if_splits)
  show "(\<exists>e. startup tables f = Fatal e) \<longleftrightarrow>
      (\<exists>e. validate (upper_selectors tables f) = Inl e)"
    by (rule startup_Fatal_iff)
qed

text \<open>
  The default flags pass once the selectors are upper-cased; a batch size of 100001 is
  rejected; the OID \<^verbatim>\<open>1.2.3\<close> passes and \<^verbatim>\<open>1.2.\<close> does not.
\<close>

theorem validate_rejects_iff_witness:
  "\<not> (\<exists>e. validate (default_flags\<lparr>sanType := ''DNSNAME''\<rparr>) = Inl e) \<and>
   (\<exists>e. validate (default_flags\<lparr>sanType := ''DNSNAME'', batchSize := 100001\<rparr>) = Inl e) \<and>
   \<not> (\<exists>e. validate (default_flags\<lparr>subjectType := ''1.2.3'', sanType := ''NONE''\<rparr>) = Inl e) \<and>
   (\<exists>e. validate (default_flags\<lparr>subjectType := ''1.2.'', sanType := ''NONE''\<rparr>) = Inl e)"
proof -
  have oid: "match_oid ''1.2.3''" "\<not> match_oid ''1.2.''"
    by (simp_all add: match_oid_def is_digit_def)
  show ?thesis
    using validate_rejects_iff [of "default_flags\<lparr>sanType := ''DNSNAME''\<rparr>"]
      validate_rejects_iff [of "default_flags\<lparr>sanType := ''DNSNAME'', batchSize := 100001\<rparr>"]
      validate_rejects_iff [of "default_flags\<lparr>subjectType := ''1.2.3'', sanType := ''NONE''\<rparr>"]
      validate_rejects_iff [of "default_flags\<lparr>subjectType := ''1.2.'', sanType := ''NONE''\<rparr>"]
    by (simp add: default_flags_def MaxInt64_def oid)
qed

section \<open>The query builder\<close>

subsection \<open>Words inside the statement\<close>

lemma nl_start_append: "nl_start a \<Longrightarrow> nl_start b \<Longrightarrow> nl_start (a @ b)"
  by (cases a) (auto simp add: nl_start_def)

lemma nl_start_Nil: "nl_start []"
  by (simp add: nl_start_def)

lemma nl_start_segments:
  "nl_start sql_between" "nl_start sql_ilike" "nl_start sql_unexpired" "nl_start sql_dedup"
  "nl_start sql_group" "nl_start sql_order"
  by (simp_all add: nl_start_def sql_between_def sql_ilike_def sql_unexpired_def sql_dedup_def
      sql_group_def sql_order_def)

lemma nl_start_clauses: "nl_start (clauses f)"
  by (simp add: clauses_def nl_start_def sql_between_def)

text \<open>
  A word without a line break that occurs in \<open>a @ b\<close>, where \<open>b\<close> starts with a line
  break, occurs in \<open>a\<close> or in \<open>b\<close>: it cannot lie across the seam.
\<close>

lemma sublist_append_nl:
  assumes w: "CHR ''\<newline>'' \<notin> set w" and b: "nl_start b"
  shows "sublist w (a @ b) \<longleftrightarrow> sublist w a \<or> sublist w b"
proof
  assume "sublist w (a @ b)"
  then consider "sublist w a" | "sublist w b"
    | w1 w2 where "w = w1 @ w2" "suffix w1 a" "prefix w2 b"
    by (auto simp add: sublist_append)
  then show "sublist w a \<or> sublist w b"
  proof cases
    case 3
    show ?thesis
    proof (cases w2)
      case Nil
      with 3 have "suffix w a" by simp
      then show ?thesis by (auto simp add: suffix_def)
    next
      case (Cons c cs)
      with 3 obtain bs where "b = c # bs" by (auto simp add: prefix_def)
      with b have "c = CHR ''\<newline>''" by (simp add: nl_start_def)
      with 3 Cons w show ?thesis by simp
    qed
  qed auto
next
  assume "sublist w a \<or> sublist w b"
  then show "sublist w (a @ b)"
    by (auto simp add: sublist_def) (metis append.assoc)+
qed

lemma sublist_in_middle:
  assumes "sublist w b"
  shows "sublist w (a @ b @ c)"
proof -
  from assms obtain ps ss where "b = ps @ w @ ss"
    by (auto simp add: sublist_def)
  then have "a @ b @ c = (a @ ps) @ w @ (ss @ c)"
    by simp
  then show ?thesis
    unfolding sublist_def by blast
qed

lemma sublist_clauses:
  assumes w: "CHR ''\<newline>'' \<notin> set w" and ne: "w \<noteq> []"
  shows "sublist w (clauses f) \<longleftrightarrow>
    sublist w sql_between \<or> (q f \<noteq> [] \<and> sublist w sql_ilike) \<or>
    (unexpiredOnly f \<and> sublist w sql_unexpired) \<or> (deduplicate f \<and> sublist w sql_dedup) \<or>
    (uniq f \<and> sublist w sql_group) \<or> (sort_flag f \<and> sublist w sql_order)"
  using ne
  by (simp add: clauses_def sublist_append_nl [OF w] nl_start_append nl_start_Nil
      nl_start_segments)

lemma no_UNION_in_clauses:
  "\<not> sublist ''UNION'' sql_between" "\<not> sublist ''UNION'' sql_ilike"
  "\<not> sublist ''UNION'' sql_unexpired" "\<not> sublist ''UNION'' sql_dedup"
  "\<not> sublist ''UNION'' sql_group" "\<not> sublist ''UNION'' sql_order"
  by code_simp+

lemma no_altnames_in_clauses:
  "\<not> sublist ''x509_altnames_raw'' sql_between" "\<not> sublist ''x509_altnames_raw'' sql_ilike"
  "\<not> sublist ''x509_altnames_raw'' sql_unexpired" "\<not> sublist ''x509_altnames_raw'' sql_dedup"
  "\<not> sublist ''x509_altnames_raw'' sql_group" "\<not> sublist ''x509_altnames_raw'' sql_order"
  by code_simp+

lemma oid_branch_words:
  "\<not> sublist ''UNION'' (sql_head @ sql_subject @ sql_subject_where @ ''1.2.3'' @ [CHR 0x27])"
  "\<not> sublist ''x509_altnames_raw''
      (sql_head @ sql_subject @ sql_subject_where @ ''1.2.3'' @ [CHR 0x27])"
  "sublist (''ATTRIBUTE_OID = '' @ [CHR 0x27] @ ''1.2.3'' @ [CHR 0x27])
      (sql_subject_where @ ''1.2.3'' @ [CHR 0x27])"
  "sublist ''x509_altnames_raw'' sql_san"
  by code_simp+

text \<open>
  C8. With \<^verbatim>\<open>subjectType\<close> \<^verbatim>\<open>1.2.3\<close> and \<^verbatim>\<open>sanType\<close> \<^verbatim>\<open>NONE\<close> the lateral expansion is
  the subject-attribute branch alone, filtered by \<^verbatim>\<open>ATTRIBUTE_OID = '1.2.3'\<close>; the
  statement contains that filter, and contains neither the word \<^verbatim>\<open>UNION\<close> nor the SAN
  branch (nor any mention of \<^verbatim>\<open>x509_altnames_raw\<close>), whatever the other flags are.
\<close>

theorem oid_only_statement:
  assumes "subjectType f = ''1.2.3''" and "sanType f = ''NONE''"
  shows "lateral f n = sql_subject @ sql_subject_where @ ''1.2.3'' @ [CHR 0x27] \<and>
    sublist (''ATTRIBUTE_OID = '' @ [CHR 0x27] @ ''1.2.3'' @ [CHR 0x27]) (build_query f n) \<and>
    \<not> sublist ''UNION'' (build_query f n) \<and>
    \<not> sublist ''x509_altnames_raw'' (build_query f n) \<and>
    \<not> sublist sql_san (build_query f n)"
proof -
  let ?branch = "sql_subject @ sql_subject_where @ ''1.2.3'' @ [CHR 0x27]"
  have lat: "lateral f n = ?branch"
    using assms by (simp add: lateral_def)
  have bq: "build_query f n = (sql_head @ ?branch) @ clauses f"
    by (simp only: build_query_def lat append_assoc)
  have bq': "build_query f n =
      (sql_head @ sql_subject) @ (sql_subject_where @ ''1.2.3'' @ [CHR 0x27]) @ clauses f"
    by (simp only: build_query_def lat append_assoc)
  have filter: "sublist (''ATTRIBUTE_OID = '' @ [CHR 0x27] @ ''1.2.3'' @ [CHR 0x27])
      (build_query f n)"
    unfolding bq' using oid_branch_words(3) by (rule sublist_in_middle)
  have split: "sublist w (build_query f n) \<longleftrightarrow>
      sublist w (sql_head @ ?branch) \<or> sublist w (clauses f)"
    if "CHR ''\<newline>'' \<notin> set w" for w
    unfolding bq using that nl_start_clauses by (rule sublist_append_nl)
  have "\<not> sublist ''UNION'' (clauses f)"
    by (simp add: sublist_clauses no_UNION_in_clauses)
  with oid_branch_words(1) have union: "\<not> sublist ''UNION'' (build_query f n)"
    by (simp add: split)
  have "\<not> sublist ''x509_altnames_raw'' (clauses f)"
    by (simp add: sublist_clauses no_altnames_in_clauses)
  with oid_branch_words(2) have alt: "\<not> sublist ''x509_altnames_raw'' (build_query f n)"
    by (simp add: split)
  have san: "\<not> sublist sql_san (build_query f n)"
  proof
    assume "sublist sql_san (build_query f n)"
    with oid_branch_words(4) have "sublist ''x509_altnames_raw'' (build_query f n)"
      by (rule sublist_order.order_trans)
    with alt show False by simp
  qed
  from lat filter union alt san show ?thesis by (simp only: simp_thms)
qed

text \<open>These selectors with the other flags at their defaults; the validation accepts them.\<close>

theorem oid_only_statement_witness:
  "subjectType (default_flags\<lparr>subjectType := ''1.2.3'', sanType := ''NONE''\<rparr>) = ''1.2.3'' \<and>
   sanType (default_flags\<lparr>subjectType := ''1.2.3'', sanType := ''NONE''\<rparr>) = ''NONE'' \<and>
   validate (default_flags\<lparr>subjectType := ''1.2.3'', sanType := ''NONE''\<rparr>) = Inr (- 1) \<and>
   lateral (default_flags\<lparr>subjectType := ''1.2.3'', sanType := ''NONE''\<rparr>) (- 1) =
     sql_subject @ sql_subject_where @ ''1.2.3'' @ [CHR 0x27] \<and>
   sublist (''ATTRIBUTE_OID = '' @ [CHR 0x27] @ ''1.2.3'' @ [CHR 0x27])
     (build_query (default_flags\<lparr>subjectType := ''1.2.3'', sanType := ''NONE''\<rparr>) (- 1)) \<and>
   \<not> sublist ''UNION''
     (build_query (default_flags\<lparr>subjectType := ''1.2.3'', sanType := ''NONE''\<rparr>) (- 1)) \<and>
   \<not> sublist ''x509_altnames_raw''
     (build_query (default_flags\<lparr>subjectType := ''1.2.3'', sanType := ''NONE''\<rparr>) (- 1)) \<and>
   \<not> sublist sql_san
     (build_query (default_flags\<lparr>subjectType := ''1.2.3'', sanType := ''NONE''\<rparr>) (- 1))"
proof -
  let ?f = "default_flags\<lparr>subjectType := ''1.2.3'', sanType := ''NONE''\<rparr>"
  have s: "subjectType ?f = ''1.2.3''" and t: "sanType ?f = ''NONE''"
    by simp_all
  have "match_oid ''1.2.3''"
    by (simp add: match_oid_def is_digit_def)
  then have v: "validate ?f = Inr (- 1)"
    by (simp add: validate_def check_ranges_def check_subjectType_def sanTypeNum_of_def
        default_flags_def MaxInt64_def)
  from s t v oid_only_statement [OF s t, of "- 1"] show ?thesis
    by (simp only: simp_thms)
qed

subsection \<open>The positional parameters\<close>

lemma occ_dollar_free:
  "CHR ''$'' \<notin> set a \<Longrightarrow> occurrences (CHR ''$'' # w) (a @ b) = occurrences (CHR ''$'' # w) b"
  by (induction a) auto

lemma occ_zero: "CHR ''$'' \<notin> set a \<Longrightarrow> occurrences (CHR ''$'' # w) a = 0"
  using occ_dollar_free [of a w "[]"] by simp

lemma occ_append:
  "a = [] \<or> last a \<noteq> CHR ''$'' \<Longrightarrow>
   occurrences [CHR ''$'', d] (a @ b) = occurrences [CHR ''$'', d] a + occurrences [CHR ''$'', d] b"
proof (induction a)
  case Nil
  then show ?case by simp
next
  case (Cons x xs)
  show ?case
  proof (cases xs)
    case Nil
    with Cons.prems show ?thesis by simp
  next
    case (Cons y ys)
    with Cons.prems Cons.IH show ?thesis by simp
  qed
qed

lemma last_segments:
  "last sql_between \<noteq> CHR ''$''" "last sql_ilike \<noteq> CHR ''$''" "last sql_unexpired \<noteq> CHR ''$''"
  "last sql_dedup \<noteq> CHR ''$''" "last sql_group \<noteq> CHR ''$''" "last sql_order \<noteq> CHR ''$''"
  by code_simp+

lemma occ_segments:
  "occurrences ''$1'' sql_between = 1" "occurrences ''$2'' sql_between = 1"
  "occurrences ''$3'' sql_between = 0"
  "occurrences ''$1'' sql_ilike = 0" "occurrences ''$2'' sql_ilike = 0"
  "occurrences ''$3'' sql_ilike = 1"
  by code_simp+

lemma dollar_free_segments:
  "CHR ''$'' \<notin> set sql_head" "CHR ''$'' \<notin> set sql_subject" "CHR ''$'' \<notin> set sql_subject_where"
  "CHR ''$'' \<notin> set sql_union" "CHR ''$'' \<notin> set sql_san" "CHR ''$'' \<notin> set sql_san_where"
  "CHR ''$'' \<notin> set sql_unexpired" "CHR ''$'' \<notin> set sql_dedup" "CHR ''$'' \<notin> set sql_group"
  "CHR ''$'' \<notin> set sql_order"
  by code_simp+

lemma occ_clauses:
  assumes "q f \<noteq> []"
  shows "occurrences ''$1'' (clauses f) = 1" "occurrences ''$2'' (clauses f) = 1"
    "occurrences ''$3'' (clauses f) = 1"
  using assms
  by (simp_all add: clauses_def occ_append last_segments occ_segments occ_zero
      dollar_free_segments)

lemma match_oid_dollar_free: "match_oid s \<Longrightarrow> CHR ''$'' \<notin> set s"
  by (auto simp add: match_oid_def list_all_iff is_digit_def)

lemma sprintf_d_dollar_free:
  "CHR ''$'' \<notin> set (sprintf_d 1)" "CHR ''$'' \<notin> set (sprintf_d 2)" "CHR ''$'' \<notin> set (sprintf_d 7)"
  by code_simp+

lemma validate_Inr:
  assumes "validate f = Inr n"
  shows "q f \<noteq> []"
    and "subjectType f = ''NONE'' \<or> subjectType f = ''ANY'' \<or> match_oid (subjectType f)"
    and "sanType f = ''NONE'' \<or> sanType f = ''ANY'' \<or> n = 1 \<or> n = 2 \<or> n = 7"
  using assms
  by (auto simp add: validate_def check_ranges_def check_subjectType_def sanTypeNum_of_def
      split: option.splits if_splits)

lemma lateral_dollar_free:
  assumes "validate f = Inr n"
  shows "CHR ''$'' \<notin> set (lateral f n)"
  using validate_Inr(2,3) [OF assms]
  by (auto simp add: lateral_def dollar_free_segments sprintf_d_dollar_free
      dest: match_oid_dollar_free)

lemma occ_build_query:
  "validate f = Inr n \<Longrightarrow>
   occurrences (CHR ''$'' # w) (build_query f n) = occurrences (CHR ''$'' # w) (clauses f)"
  using occ_dollar_free [of "sql_head @ lateral f n" w "clauses f"]
  by (simp add: build_query_def dollar_free_segments lateral_dollar_free)

text \<open>The statement is a function of the selectors, the four switches and whether the
  pattern is empty; the text of the pattern takes no part in it.\<close>

lemma build_query_cong:
  assumes "subjectType f' = subjectType f" "sanType f' = sanType f"
    "unexpiredOnly f' = unexpiredOnly f" "deduplicate f' = deduplicate f"
    "uniq f' = uniq f" "sort_flag f' = sort_flag f" "q f' = [] \<longleftrightarrow> q f = []"
  shows "build_query f' n = build_query f n"
  using assms by (simp add: build_query_def lateral_def clauses_def)

subsection \<open>What a run can emit\<close>

lemma process_rows_events:
  "process_rows rs = (evs, failed) \<Longrightarrow> ev \<in> set evs \<Longrightarrow> event_ok query pat ev"
  by (induction rs arbitrary: evs failed rule: process_rows.induct)
    (auto split: prod.splits)

lemma discover_events:
  "discover f e s = (evs, s', found) \<Longrightarrow> ev \<in> set evs \<Longrightarrow> event_ok query pat ev"
  by (auto simp add: discover_def Let_def split: option.splits if_splits)

lemma fetch_events:
  "fetch f query e s = (evs, s', c) \<Longrightarrow> ev \<in> set evs \<Longrightarrow> event_ok query (q f) ev"
  by (auto simp add: fetch_def Let_def split: option.splits if_splits prod.splits
      dest: process_rows_events [where query = query and pat = "q f"])

lemma batch_step_events:
  "batch_step f query e s = (evs, s', c) \<Longrightarrow> ev \<in> set evs \<Longrightarrow> event_ok query (q f) ev"
  by (auto simp add: batch_step_def split: if_splits prod.splits dest: fetch_events)

lemma body_events:
  "body f query e s = (evs, s', c) \<Longrightarrow> ev \<in> set evs \<Longrightarrow> event_ok query (q f) ev"
  by (auto simp add: body_def Let_def split: if_splits prod.splits
      dest: batch_step_events discover_events [where query = query and pat = "q f"])

lemma run_events:
  "run f query es s = (evs, s', st) \<Longrightarrow> ev \<in> set evs \<Longrightarrow> event_ok query (q f) ev"
proof (induction es arbitrary: s evs s' st)
  case Nil
  then show ?case by simp
next
  case (Cons e es)
  then show ?case
    by (auto split: if_splits prod.splits control.splits dest: body_events)
qed

text \<open>
  C3. For flags that pass the validation, the statement holds exactly one \<^verbatim>\<open>$1\<close>, one
  \<^verbatim>\<open>$2\<close> and one \<^verbatim>\<open>$3\<close>. The builder is a function of the flags, and of these only of
  the selectors and the four switches: two valid flag records that agree on them get the
  same statement, whatever their patterns are, so the pattern is in no part of the
  statement. In every run the pattern is handed over as the third parameter of each batch
  query, next to the statement that was built.
\<close>

theorem query_builder_parameters:
  assumes "validate f = Inr n"
  shows "occurrences ''$1'' (build_query f n) = 1 \<and>
    occurrences ''$2'' (build_query f n) = 1 \<and>
    occurrences ''$3'' (build_query f n) = 1 \<and>
    (\<forall>f'. validate f' = Inr n \<and> subjectType f' = subjectType f \<and> sanType f' = sanType f \<and>
        unexpiredOnly f' = unexpiredOnly f \<and> deduplicate f' = deduplicate f \<and>
        uniq f' = uniq f \<and> sort_flag f' = sort_flag f
        \<longrightarrow> build_query f' n = build_query f n) \<and>
    (\<forall>es s stmt lo hi pat.
        Query_batch stmt lo hi pat \<in> set (fst (run f (build_query f n) es s))
        \<longrightarrow> stmt = build_query f n \<and> pat = q f)"
proof -
  have ne: "q f \<noteq> []"
    using assms by (rule validate_Inr(1))
  have one: "occurrences ''$1'' (build_query f n) = 1"
    "occurrences ''$2'' (build_query f n) = 1" "occurrences ''$3'' (build_query f n) = 1"
    by (simp_all only: occ_build_query [OF assms] occ_clauses [OF ne])
  have same: "build_query f' n = build_query f n"
    if "validate f' = Inr n" "subjectType f' = subjectType f" "sanType f' = sanType f"
      "unexpiredOnly f' = unexpiredOnly f" "deduplicate f' = deduplicate f"
      "uniq f' = uniq f" "sort_flag f' = sort_flag f" for f'
  proof -
    from that(1) have "q f' \<noteq> []" by (rule validate_Inr(1))
    with ne that show ?thesis by (intro build_query_cong) simp_all
  qed
  have param: "stmt = build_query f n \<and> pat = q f"
    if "Query_batch stmt lo hi pat \<in> set (fst (run f (build_query f n) es s))"
    for es s stmt lo hi pat
    using run_events [of f "build_query f n" es s _ _ _ "Query_batch stmt lo hi pat"] that
    by (cases "run f (build_query f n) es s") simp
  from one same param show ?thesis by blast
qed

text \<open>
  The default flags with \<^verbatim>\<open>startID\<close> 1, the selectors in upper case: a valid flag record,
  one with another pattern, and a run whose first batch query is for the IDs 1 to 5.
\<close>

theorem query_builder_parameters_witness:
  "validate (default_flags\<lparr>startID := 1, sanType := ''DNSNAME''\<rparr>) = Inr 2 \<and>
   occurrences ''$1'' (build_query (default_flags\<lparr>startID := 1, sanType := ''DNSNAME''\<rparr>) 2) = 1 \<and>
   occurrences ''$2'' (build_query (default_flags\<lparr>startID := 1, sanType := ''DNSNAME''\<rparr>) 2) = 1 \<and>
   occurrences ''$3'' (build_query (default_flags\<lparr>startID := 1, sanType := ''DNSNAME''\<rparr>) 2) = 1 \<and>
   validate (default_flags\<lparr>startID := 1, sanType := ''DNSNAME'', q := ''%.example.com''\<rparr>) = Inr 2 \<and>
   build_query (default_flags\<lparr>startID := 1, sanType := ''DNSNAME'', q := ''%.example.com''\<rparr>) 2 =
     build_query (default_flags\<lparr>startID := 1, sanType := ''DNSNAME''\<rparr>) 2 \<and>
   Query_batch (build_query (default_flags\<lparr>startID := 1, sanType := ''DNSNAME''\<rparr>) 2) 1 5 ''%''
     \<in> set (fst (run (default_flags\<lparr>startID := 1, sanType := ''DNSNAME''\<rparr>)
         (build_query (default_flags\<lparr>startID := 1, sanType := ''DNSNAME''\<rparr>) 2)
         [answer (Some 5) (Some [])]
         (init_vars (default_flags\<lparr>startID := 1, sanType := ''DNSNAME''\<rparr>))))"
proof -
  let ?f = "default_flags\<lparr>startID := 1, sanType := ''DNSNAME''\<rparr>"
  let ?f' = "default_flags\<lparr>startID := 1, sanType := ''DNSNAME'', q := ''%.example.com''\<rparr>"
  have v: "validate ?f = Inr 2" and v': "validate ?f' = Inr 2"
    by (simp_all add: validate_def check_ranges_def check_subjectType_def sanTypeNum_of_def
        default_flags_def MaxInt64_def)
  have m: "Query_batch (build_query ?f 2) 1 5 ''%''
      \<in> set (fst (run ?f (build_query ?f 2) [answer (Some 5) (Some [])] (init_vars ?f)))"
    by (simp add: body_def discover_def batch_step_def range_sizing_def fetch_def answer_def
        init_vars_def default_flags_def MaxInt64_def wrap64_def Second_def Let_def)
  note p = query_builder_parameters [OF v]
  note same = p [THEN conjunct2, THEN conjunct2, THEN conjunct2, THEN conjunct1, rule_format,
      of ?f']
  from v' have eq: "build_query ?f' 2 = build_query ?f 2"
    by (intro same) simp
  from p have occ: "occurrences ''$1'' (build_query ?f 2) = 1"
    "occurrences ''$2'' (build_query ?f 2) = 1" "occurrences ''$3'' (build_query ?f 2) = 1"
    by (simp_all only: simp_thms)
  from v occ v' eq m show ?thesis
    by (intro conjI)
qed

section \<open>The main loop\<close>

subsection \<open>The count of the batch-end record\<close>

lemma process_rows_all_scanned: "process_rows (map Some rs) = (map Log_record rs, False)"
  by (induction rs) simp_all

text \<open>
  C9. In every run, from every state and against every backend, each batch-end record
  carries the count 0. In particular a batch whose rows are all scanned logs one record
  for each row, however many there are, and then a batch-end record with the count 0.
\<close>

theorem batch_end_count_zero:
  "(Log_batch_end lo hi n \<in> set (fst (run f query es s)) \<longrightarrow> n = 0) \<and>
   (batch e = Some (map Some rs) \<longrightarrow>
      fst (fetch f query e s) =
        [Log_batch_start (i s) (wrap64 (wrap64 (i s + thisBatchSize s) - 1)),
         Query_batch query (i s) (wrap64 (wrap64 (i s + thisBatchSize s) - 1)) (q f)] @
        map Log_record rs @
        [Log_batch_end (i s) (wrap64 (wrap64 (i s + thisBatchSize s) - 1)) 0])"
proof (intro conjI impI)
  assume "Log_batch_end lo hi n \<in> set (fst (run f query es s))"
  then show "n = 0"
    using run_events [of f query es s _ _ _ "Log_batch_end lo hi n"]
    by (cases "run f query es s") simp
next
  assume "batch e = Some (map Some rs)"
  then show "fst (fetch f query e s) =
        [Log_batch_start (i s) (wrap64 (wrap64 (i s + thisBatchSize s) - 1)),
         Query_batch query (i s) (wrap64 (wrap64 (i s + thisBatchSize s) - 1)) (q f)] @
        map Log_record rs @
        [Log_batch_end (i s) (wrap64 (wrap64 (i s + thisBatchSize s) - 1)) 0]"
    by (simp add: fetch_def process_rows_all_scanned Let_def)
qed

text \<open>A batch over the IDs 1 to 5 in which two records are found: the count logged is 0.\<close>

theorem batch_end_count_zero_witness:
  "Log_batch_end 1 5 0 \<in> set (fst (run (default_flags\<lparr>startID := 1\<rparr>) ''Q''
      [answer (Some 5) (Some (map Some [(2, ''a.example'', 0), (4, ''b.example'', 0)]))]
      (init_vars (default_flags\<lparr>startID := 1\<rparr>)))) \<and>
   fst (fetch (default_flags\<lparr>startID := 1\<rparr>) ''Q''
      (answer (Some 5) (Some (map Some [(2, ''a.example'', 0), (4, ''b.example'', 0)])))
      \<lparr>i = 1, startID_var = 1, maxCertificateID = 5, thisBatchSize = 5,
        sleepFor = 15000000000\<rparr>) =
     [Log_batch_start 1 5, Query_batch ''Q'' 1 5 ''%'',
      Log_record (2, ''a.example'', 0), Log_record (4, ''b.example'', 0),
      Log_batch_end 1 5 0]"
proof -
  let ?f = "default_flags\<lparr>startID := 1\<rparr>"
  let ?rs = "[(2, ''a.example'', 0), (4, ''b.example'', 0)] :: row list"
  let ?e = "answer (Some 5) (Some (map Some ?rs))"
  let ?s = "\<lparr>i = 1, startID_var = 1, maxCertificateID = 5, thisBatchSize = 5,
        sleepFor = 15000000000\<rparr>"
  have m: "Log_batch_end 1 5 0 \<in> set (fst (run ?f ''Q'' [?e] (init_vars ?f)))"
    by (simp add: body_def discover_def batch_step_def range_sizing_def fetch_def answer_def
        init_vars_def default_flags_def MaxInt64_def wrap64_def Second_def Let_def)
  have b: "batch ?e = Some (map Some ?rs)"
    by (simp add: answer_def)
  from batch_end_count_zero [of 1 5 0 ?f "''Q''" "[?e]" "init_vars ?f" ?e ?rs] m
    batch_end_count_zero [of 1 5 0 ?f "''Q''" "[?e]" ?s ?e ?rs] b
  show ?thesis
    by (simp add: wrap64_def default_flags_def)
qed

subsection \<open>Sizing the range\<close>

lemma wrap64_id: "int64 x \<Longrightarrow> wrap64 x = x"
  by (simp add: wrap64_def int64_def MinInt64_def MaxInt64_def)

lemma wrap64_add_left: "wrap64 (wrap64 x + y) = wrap64 (x + y)"
  by (simp add: wrap64_def mod_simps ac_simps)

lemma available_exact:
  assumes "int64 (m - k + 1)"
  shows "wrap64 (wrap64 (m - k) + 1) = m - k + 1"
  using assms by (simp only: wrap64_add_left wrap64_id)

text \<open>
  C4, as amended. For a batch size of at least 1, and as long as the number
  \<^verbatim>\<open>maxCertificateID - i + 1\<close> is itself an \<^verbatim>\<open>int64\<close>: when \<^verbatim>\<open>i <= maxCertificateID\<close> the
  loop goes on to the batch query with the width
  \<open>min batchSize (maxCertificateID - i + 1)\<close>, which is at least 1; when that number is 0
  or less the iteration logs that nothing is available and issues no query; and when it
  is exactly 0 the post statement leaves \<^verbatim>\<open>i\<close> as it was.
\<close>

theorem range_sizing_law:
  assumes "1 \<le> batchSize f" and "int64 (i s)" and "int64 (maxCertificateID s - i s + 1)"
  shows "(i s \<le> maxCertificateID s \<longrightarrow>
      snd (range_sizing f s) \<and>
      thisBatchSize (fst (range_sizing f s)) =
        min (batchSize f) (maxCertificateID s - i s + 1) \<and>
      1 \<le> thisBatchSize (fst (range_sizing f s))) \<and>
    (maxCertificateID s - i s + 1 \<le> 0 \<longrightarrow>
      batch_step f query e s =
        ([Log_no_more], s\<lparr>thisBatchSize := maxCertificateID s - i s + 1\<rparr>, Post)) \<and>
    (maxCertificateID s - i s + 1 = 0 \<longrightarrow>
      i (post (fst (snd (batch_step f query e s)))) = i s)"
proof -
  have av: "wrap64 (wrap64 (maxCertificateID s - i s) + 1) = maxCertificateID s - i s + 1"
    using assms(3) by (rule available_exact)
  have a: "snd (range_sizing f s) \<and>
      thisBatchSize (fst (range_sizing f s)) =
        min (batchSize f) (maxCertificateID s - i s + 1) \<and>
      1 \<le> thisBatchSize (fst (range_sizing f s))"
    if "i s \<le> maxCertificateID s"
    using that assms(1) by (simp add: range_sizing_def av Let_def)
  have b: "batch_step f query e s =
      ([Log_no_more], s\<lparr>thisBatchSize := maxCertificateID s - i s + 1\<rparr>, Post)"
    if "maxCertificateID s - i s + 1 \<le> 0"
    using that assms(1) by (simp add: batch_step_def range_sizing_def av Let_def)
  have c: "i (post (fst (snd (batch_step f query e s)))) = i s"
    if "maxCertificateID s - i s + 1 = 0"
    using that b assms(2) by (simp add: post_def wrap64_id)
  from a b c show ?thesis by blast
qed

text \<open>
  With the default batch size: five IDs available from ID 1 on give the width 5; with
  the cursor one past the known maximum nothing is queried and the cursor stays.
\<close>

theorem range_sizing_law_witness:
  "1 \<le> batchSize default_flags \<and> int64 1 \<and> int64 (5 - 1 + 1) \<and> (1::int) \<le> 5 \<and>
   range_sizing default_flags
     \<lparr>i = 1, startID_var = 1, maxCertificateID = 5, thisBatchSize = 0, sleepFor = 15000000000\<rparr> =
     (\<lparr>i = 1, startID_var = 1, maxCertificateID = 5, thisBatchSize = 5,
       sleepFor = 15000000000\<rparr>, True) \<and>
   int64 6 \<and> int64 (5 - 6 + 1) \<and> (5::int) - 6 + 1 \<le> 0 \<and>
   batch_step default_flags ''Q'' (answer None None)
     \<lparr>i = 6, startID_var = 1, maxCertificateID = 5, thisBatchSize = 5, sleepFor = 15000000000\<rparr> =
     ([Log_no_more],
      \<lparr>i = 6, startID_var = 1, maxCertificateID = 5, thisBatchSize = 0, sleepFor = 15000000000\<rparr>,
      Post) \<and>
   i (post (fst (snd (batch_step default_flags ''Q'' (answer None None)
     \<lparr>i = 6, startID_var = 1, maxCertificateID = 5, thisBatchSize = 5,
       sleepFor = 15000000000\<rparr>)))) = 6"
proof -
  let ?s = "\<lparr>i = 1, startID_var = 1, maxCertificateID = 5, thisBatchSize = 0,
    sleepFor = 15000000000\<rparr>"
  let ?t = "\<lparr>i = 6, startID_var = 1, maxCertificateID = 5, thisBatchSize = 5,
    sleepFor = 15000000000\<rparr>"
  have b: "1 \<le> batchSize default_flags"
    by (simp add: default_flags_def)
  have r: "int64 1" "int64 (5 - 1 + 1)" "int64 6" "int64 (5 - 6 + 1)"
    by (simp_all add: int64_def MinInt64_def MaxInt64_def)
  have s: "int64 (i ?s)" "int64 (maxCertificateID ?s - i ?s + 1)"
    and t: "int64 (i ?t)" "int64 (maxCertificateID ?t - i ?t + 1)"
    using r by simp_all
  have "range_sizing default_flags ?s =
      (\<lparr>i = 1, startID_var = 1, maxCertificateID = 5, thisBatchSize = 5,
        sleepFor = 15000000000\<rparr>, True)"
    using range_sizing_law [OF b s, of "''Q''" "answer None None"]
    by (simp add: range_sizing_def wrap64_def Let_def default_flags_def)
  moreover have "batch_step default_flags ''Q'' (answer None None) ?t =
      ([Log_no_more],
       \<lparr>i = 6, startID_var = 1, maxCertificateID = 5, thisBatchSize = 0,
         sleepFor = 15000000000\<rparr>, Post)"
    using range_sizing_law [OF b t, of "''Q''" "answer None None"] by simp
  moreover have "i (post (fst (snd (batch_step default_flags ''Q'' (answer None None) ?t)))) = 6"
    using range_sizing_law [OF b t, of "''Q''" "answer None None"]
    by (simp add: post_def wrap64_def)
  ultimately show ?thesis
    using b r by simp
qed

text \<open>
  C4 as it was stated fails. A batch size of 0 passes the validation, and then the width
  is 0 although \<^verbatim>\<open>i <= maxCertificateID\<close>. At the two ends of \<^verbatim>\<open>int64\<close> the number
  \<^verbatim>\<open>maxCertificateID - i + 1\<close> wraps around to 0. And when that number is negative the post
  statement, which \<^verbatim>\<open>continue\<close> does not skip, moves \<^verbatim>\<open>i\<close>: here from 1000 back to 501.
\<close>

theorem range_sizing_counterexample:
  "validate (default_flags\<lparr>batchSize := 0, sanType := ''DNSNAME''\<rparr>) = Inr 2 \<and>
   range_sizing (default_flags\<lparr>batchSize := 0, sanType := ''DNSNAME''\<rparr>)
     \<lparr>i = 1, startID_var = 1, maxCertificateID = 5, thisBatchSize = 0, sleepFor = 15000000000\<rparr> =
     (\<lparr>i = 1, startID_var = 1, maxCertificateID = 5, thisBatchSize = 0, sleepFor = 0\<rparr>, True) \<and>
   range_sizing default_flags
     \<lparr>i = - 9223372036854775808, startID_var = - 9223372036854775808,
       maxCertificateID = 9223372036854775807, thisBatchSize = 0, sleepFor = 15000000000\<rparr> =
     (\<lparr>i = - 9223372036854775808, startID_var = - 9223372036854775808,
       maxCertificateID = 9223372036854775807, thisBatchSize = 0, sleepFor = 15000000000\<rparr>,
      False) \<and>
   post (fst (range_sizing default_flags
     \<lparr>i = 1000, startID_var = 1000, maxCertificateID = 500, thisBatchSize = 0,
       sleepFor = 15000000000\<rparr>)) =
     \<lparr>i = 501, startID_var = 1000, maxCertificateID = 500, thisBatchSize = - 499,
       sleepFor = 15000000000\<rparr>"
  by (simp add: range_sizing_def post_def wrap64_def default_flags_def Let_def validate_def
      check_ranges_def check_subjectType_def sanTypeNum_of_def MaxInt64_def)

text \<open>
  The delay after the sizing: zero when the full batch size is used, otherwise what line
  187 has set, the 15 seconds of the polling interval.
\<close>

lemma sleepFor_after_sizing:
  "sleepFor (fst (range_sizing f s)) =
     (if batchSize f \<le> wrap64 (wrap64 (maxCertificateID s - i s) + 1) then 0 else sleepFor s)"
  by (simp add: range_sizing_def Let_def)

subsection \<open>Runs in which the loop leaves the ranges it should scan\<close>

text \<open>
  C2. With \<^verbatim>\<open>startID\<close> = \<^verbatim>\<open>endID\<close> = 100 and the default batch size the flags pass the
  validation (line 61 rejects \<^verbatim>\<open>startID > endID\<close> only), but the condition \<^verbatim>\<open>i < endID\<close>
  of line 175 is false before the first iteration: whatever the backend would answer, the
  loop body never runs, no query is issued and ID 100 is never searched. The last ID is
  searched only when a batch happens to reach it: from ID 1 with \<^verbatim>\<open>endID\<close> 11 and a latest
  ID of 100, the batch size 100 gives the one batch 1 to 11 (lines 202--204 cut the range
  at \<^verbatim>\<open>endID\<close>, inclusive), the batch size 10 gives the one batch 1 to 10, and both runs
  are completed.
\<close>

theorem single_id_range_never_queried:
  "scan tables (default_flags\<lparr>startID := 100, endID := 100\<rparr>) es =
     Some ([],
       \<lparr>i = 100, startID_var = 100, maxCertificateID = - 1, thisBatchSize = 0, sleepFor = 0\<rparr>,
       Completed) \<and>
   batch_ranges (fst (run (default_flags\<lparr>startID := 1, endID := 11, batchSize := 100\<rparr>) ''Q''
     [answer (Some 100) (Some []), answer (Some 100) (Some [])]
     (init_vars (default_flags\<lparr>startID := 1, endID := 11, batchSize := 100\<rparr>)))) =
     [(1, 11)] \<and>
   snd (snd (run (default_flags\<lparr>startID := 1, endID := 11, batchSize := 100\<rparr>) ''Q''
     [answer (Some 100) (Some []), answer (Some 100) (Some [])]
     (init_vars (default_flags\<lparr>startID := 1, endID := 11, batchSize := 100\<rparr>)))) =
     Completed \<and>
   batch_ranges (fst (run (default_flags\<lparr>startID := 1, endID := 11, batchSize := 10\<rparr>) ''Q''
     [answer (Some 100) (Some []), answer (Some 100) (Some [])]
     (init_vars (default_flags\<lparr>startID := 1, endID := 11, batchSize := 10\<rparr>)))) =
     [(1, 10)] \<and>
   snd (snd (run (default_flags\<lparr>startID := 1, endID := 11, batchSize := 10\<rparr>) ''Q''
     [answer (Some 100) (Some []), answer (Some 100) (Some [])]
     (init_vars (default_flags\<lparr>startID := 1, endID := 11, batchSize := 10\<rparr>)))) =
     Completed"
proof -
  have "validate (upper_selectors tables (default_flags\<lparr>startID := 100, endID := 100\<rparr>)) =
      Inr 2"
    by (simp add: validate_def check_ranges_def check_subjectType_def sanTypeNum_of_def
        upper_selectors_def default_flags_def toUpper_NONE toUpper_dNSName)
  then have single: "scan tables (default_flags\<lparr>startID := 100, endID := 100\<rparr>) es =
     Some ([],
       \<lparr>i = 100, startID_var = 100, maxCertificateID = - 1, thisBatchSize = 0, sleepFor = 0\<rparr>,
       Completed)"
    by (cases es)
      (simp_all add: scan_def startup_def Let_def init_vars_def upper_selectors_def
        default_flags_def)
  have runs:
    "batch_ranges (fst (run (default_flags\<lparr>startID := 1, endID := 11, batchSize := 100\<rparr>) ''Q''
       [answer (Some 100) (Some []), answer (Some 100) (Some [])]
       (init_vars (default_flags\<lparr>startID := 1, endID := 11, batchSize := 100\<rparr>)))) =
       [(1, 11)]"
    "snd (snd (run (default_flags\<lparr>startID := 1, endID := 11, batchSize := 100\<rparr>) ''Q''
       [answer (Some 100) (Some []), answer (Some 100) (Some [])]
       (init_vars (default_flags\<lparr>startID := 1, endID := 11, batchSize := 100\<rparr>)))) =
       Completed"
    "batch_ranges (fst (run (default_flags\<lparr>startID := 1, endID := 11, batchSize := 10\<rparr>) ''Q''
       [answer (Some 100) (Some []), answer (Some 100) (Some [])]
       (init_vars (default_flags\<lparr>startID := 1, endID := 11, batchSize := 10\<rparr>)))) =
       [(1, 10)]"
    "snd (snd (run (default_flags\<lparr>startID := 1, endID := 11, batchSize := 10\<rparr>) ''Q''
       [answer (Some 100) (Some []), answer (Some 100) (Some [])]
       (init_vars (default_flags\<lparr>startID := 1, endID := 11, batchSize := 10\<rparr>)))) =
       Completed"
    by (simp_all add: body_def discover_def batch_step_def range_sizing_def fetch_def post_def
        answer_def init_vars_def default_flags_def MaxInt64_def wrap64_def Second_def Let_def)
  from single runs show ?thesis
    by (simp only: simp_thms)
qed

text \<open>
  C1. Three runs from ID 1 with batch size 10. In the first the batch over the IDs 1 to 5
  succeeds, then the query for the latest ID fails: the \<^verbatim>\<open>continue\<close> of line 193 runs
  the post statement with the width 5 of the batch before, the cursor goes from 6 to 11,
  and the next batch is 11 to 20, so that the IDs 6 to 10 are never queried. In the
  second the batch query over the IDs 1 to 5 fails: the \<^verbatim>\<open>continue\<close> of line 221 moves the
  cursor to 6, and the next batch is 6 to 15, so that the failed range is not queried
  again. In the third the latest ID is 25 and the batch query over the IDs 1 to 10 fails:
  the next iteration waits for no time at all and queries the IDs 11 to 20.
\<close>

theorem failed_query_skips_ids:
  "run (default_flags\<lparr>startID := 1, batchSize := 10\<rparr>) ''Q''
     [answer (Some 5) (Some []), answer None None, answer (Some 20) (Some [])]
     (init_vars (default_flags\<lparr>startID := 1, batchSize := 10\<rparr>)) =
     ([Waited 0, Query_latest, Log_latest 5, Log_batch_start 1 5,
       Query_batch ''Q'' 1 5 ''%'', Log_batch_end 1 5 0,
       Log_sleeping 15000000000, Waited 15000000000, Query_latest, Log_latest_error,
       Log_sleeping 15000000000, Waited 15000000000, Query_latest, Log_latest 20,
       Log_batch_start 11 20, Query_batch ''Q'' 11 20 ''%'', Log_batch_end 11 20 0],
      \<lparr>i = 21, startID_var = 1, maxCertificateID = 20, thisBatchSize = 10, sleepFor = 0\<rparr>,
      Running) \<and>
   run (default_flags\<lparr>startID := 1, batchSize := 10\<rparr>) ''Q''
     [answer (Some 5) None, answer (Some 20) (Some [])]
     (init_vars (default_flags\<lparr>startID := 1, batchSize := 10\<rparr>)) =
     ([Waited 0, Query_latest, Log_latest 5, Log_batch_start 1 5,
       Query_batch ''Q'' 1 5 ''%'', Log_batch_error,
       Log_sleeping 15000000000, Waited 15000000000, Query_latest, Log_latest 20,
       Log_batch_start 6 15, Query_batch ''Q'' 6 15 ''%'', Log_batch_end 6 15 0],
      \<lparr>i = 16, startID_var = 1, maxCertificateID = 20, thisBatchSize = 10, sleepFor = 0\<rparr>,
      Running) \<and>
   run (default_flags\<lparr>startID := 1, batchSize := 10\<rparr>) ''Q''
     [answer (Some 25) None, answer (Some 25) (Some [])]
     (init_vars (default_flags\<lparr>startID := 1, batchSize := 10\<rparr>)) =
     ([Waited 0, Query_latest, Log_latest 25, Log_batch_start 1 10,
       Query_batch ''Q'' 1 10 ''%'', Log_batch_error,
       Waited 0, Log_batch_start 11 20, Query_batch ''Q'' 11 20 ''%'', Log_batch_end 11 20 0],
      \<lparr>i = 21, startID_var = 1, maxCertificateID = 25, thisBatchSize = 10, sleepFor = 0\<rparr>,
      Running)"
  by (simp add: body_def discover_def batch_step_def range_sizing_def fetch_def post_def
      answer_def init_vars_def default_flags_def MaxInt64_def wrap64_def Second_def Let_def)

text \<open>
  C5. A run from ID 1000 against a backend whose latest ID is 500. Nothing is available
  and no batch query is issued, but the \<^verbatim>\<open>continue\<close> of line 212 runs the post statement
  with \<^verbatim>\<open>thisBatchSize\<close> = -499: the cursor goes from 1000 back to 501.
\<close>

theorem no_data_moves_cursor:
  "run (default_flags\<lparr>startID := 1000\<rparr>) ''Q'' [answer (Some 500) (Some [])]
     (init_vars (default_flags\<lparr>startID := 1000\<rparr>)) =
     ([Waited 0, Query_latest, Log_latest 500, Log_no_more],
      \<lparr>i = 501, startID_var = 1000, maxCertificateID = 500, thisBatchSize = - 499,
        sleepFor = 15000000000\<rparr>,
      Running)"
  by (simp add: body_def discover_def batch_step_def range_sizing_def fetch_def post_def
      answer_def init_vars_def default_flags_def MaxInt64_def wrap64_def Second_def Let_def)

text \<open>
  C6. Runs with the default flags (\<^verbatim>\<open>startID\<close> = -1). When the first answer for the latest
  ID is 500 the cursor becomes 501. But let the latest ID then be 510 and the batch 501 to
  510 be fetched, let the query for the latest ID fail twice, succeed with 510 and fail
  once more: after these iterations the cursor is 511, 521, 531, 511 again (nothing
  available, with \<^verbatim>\<open>thisBatchSize\<close> = -20) and 491, and the next batch query is for the
  IDs 491 to 510, ten of which are not above 500.
\<close>

theorem live_edge_queries_old_ids:
  "run default_flags ''Q'' (take 1 live_edge_answers) (init_vars default_flags) =
     ([Waited 0, Query_latest, Log_latest 500, Log_no_more],
      \<lparr>i = 501, startID_var = 501, maxCertificateID = 500, thisBatchSize = 0,
        sleepFor = 15000000000\<rparr>,
      Running) \<and>
   map (\<lambda>k. i (fst (snd (run default_flags ''Q'' (take k live_edge_answers)
     (init_vars default_flags))))) [2, 3, 4, 5, 6] = [511, 521, 531, 511, 491] \<and>
   batch_ranges (fst (run default_flags ''Q'' live_edge_answers (init_vars default_flags))) =
     [(501, 510), (491, 510)]"
  by (simp add: live_edge_answers_def body_def discover_def batch_step_def range_sizing_def
      fetch_def post_def answer_def init_vars_def default_flags_def MaxInt64_def wrap64_def
      Second_def Let_def)

end
